theory Spec2Isabelle
  imports Main
begin

section \<open>Data model\<close>

text \<open>
  The model covers the two tools of the server that carry the registry logic:
  \<^verbatim>\<open>getWorkerList\<close> (worker-key cache, bounded enrichment loop, TEE type detection,
  filters) and \<^verbatim>\<open>verifyAttestation\<close> (primary verifier with on-chain fallback).
  Remote services are an explicit environment; every remote query a call issues is
  recorded in a log, so that "no second enumeration" and "keys probed" are statements
  about the log.
\<close>

type_synonym worker_key = string

text \<open>A thrown JavaScript \<^verbatim>\<open>Error\<close>; only its \<^verbatim>\<open>message\<close> is ever read.\<close>

datatype error = Error (message: string)

text \<open>
  \<^verbatim>\<open>workerInfo.toJSON()\<close>: the fields the tools read. A field that is absent or
  \<^verbatim>\<open>null\<close> is \<open>None\<close>.
\<close>

record worker_info =
  info_confidenceLevel :: "int option"
  info_runtimeVersion :: "int option"
  info_attestationMethod :: "string option"
  info_features :: "int list option"
  info_initialScore :: "int option"
  info_lastUpdated :: "int option"

text \<open>The object pushed onto \<^verbatim>\<open>workerList\<close>.\<close>

record worker =
  publicKey :: worker_key
  confidenceLevel :: int
  runtimeVersion :: int
  attestationMethod :: string
  features :: "int list"
  teeType :: string
  state :: string
  initialScore :: "int option"
  lastUpdated :: "int option"

text \<open>The module-level \<^verbatim>\<open>workerCache\<close> object; \<^verbatim>\<open>data: null\<close> is \<open>None\<close>.\<close>

record worker_cache =
  data :: "worker_key list option"
  timestamp :: int

definition TTL :: int where
  "TTL = 60000"

definition initial_cache :: worker_cache where
  "initial_cache = \<lparr>data = None, timestamp = 0\<rparr>"

text \<open>
  The chain as one request sees it. \<open>init_api\<close> is what \<^verbatim>\<open>initPhalaAPI()\<close> does
  (\<open>None\<close>: it returns the api object); \<open>query_keys\<close> is
  \<^verbatim>\<open>api.query.phalaRegistry.workers.keys()\<close>, each key already as its hex string;
  \<open>query_workers\<close> is \<^verbatim>\<open>api.query.phalaRegistry.workers(key)\<close>, where \<open>Inl\<close> is a
  rejection or the timeout winning the race and \<open>Inr None\<close> is an empty (or falsy)
  value; \<open>query_workerState\<close> is \<open>None\<close> when the api has no
  \<^verbatim>\<open>workerState\<close> storage entry.
\<close>

record chain =
  init_api :: "error option"
  query_keys :: "error + worker_key list"
  query_workers :: "worker_key \<Rightarrow> error + worker_info option"
  query_workerState :: "(worker_key \<Rightarrow> error + string option) option"

datatype call = KeysCall | WorkersCall worker_key | WorkerStateCall worker_key

text \<open>The keys whose info was queried, in order.\<close>

fun probed :: "call list \<Rightarrow> worker_key list" where
  "probed [] = []"
| "probed (WorkersCall k # cs) = k # probed cs"
| "probed (c # cs) = probed cs"

text \<open>The JSON document of a successful \<^verbatim>\<open>getWorkerList\<close> answer; an absent field is \<open>None\<close>.\<close>

record listing =
  totalWorkers :: nat
  showing :: nat
  processed :: "nat option"
  filters_onlineOnly :: bool
  filters_teeType :: string
  workers :: "worker list"
  listing_message :: "string option"

datatype list_response = Listing listing | ListError string

section \<open>JavaScript truthiness helpers\<close>

text \<open>\<^verbatim>\<open>x || 0\<close> on a number or null.\<close>

definition or_zero :: "int option \<Rightarrow> int" where
  "or_zero v = (case v of None \<Rightarrow> 0 | Some n \<Rightarrow> if n = 0 then 0 else n)"

text \<open>\<^verbatim>\<open>x || null\<close> on a number or null.\<close>

definition or_null :: "int option \<Rightarrow> int option" where
  "or_null v = (case v of None \<Rightarrow> None | Some n \<Rightarrow> if n = 0 then None else Some n)"

text \<open>\<^verbatim>\<open>s || d\<close> on a string or undefined: the empty string is falsy.\<close>

definition or_string :: "string option \<Rightarrow> string \<Rightarrow> string" where
  "or_string v d = (case v of None \<Rightarrow> d | Some s \<Rightarrow> if s = [] then d else s)"

definition truthy :: "string option \<Rightarrow> bool" where
  "truthy v = (case v of None \<Rightarrow> False | Some s \<Rightarrow> s \<noteq> [])"

section \<open>The worker-key cache\<close>

text \<open>
  \<^verbatim>\<open>workerCache.data && (now - workerCache.timestamp) < workerCache.TTL\<close>. An array is
  truthy even when empty.
\<close>

definition cache_valid :: "int \<Rightarrow> worker_cache \<Rightarrow> bool" where
  "cache_valid now c = (data c \<noteq> None \<and> now - timestamp c < TTL)"

text \<open>
  The \<^verbatim>\<open>else\<close> branch of the "check cache first" block: enumerate the keys and, when
  that returns, overwrite both cache fields. A rejected enumeration throws before the
  two assignments.
\<close>

definition refresh_keys ::
  "chain \<Rightarrow> int \<Rightarrow> worker_cache \<Rightarrow> (error + worker_key list) \<times> worker_cache \<times> call list" where
  "refresh_keys ch now c =
     (case query_keys ch of
        Inl e \<Rightarrow> (Inl e, c, [KeysCall])
      | Inr ks \<Rightarrow> (Inr ks, \<lparr>data = Some ks, timestamp = now\<rparr>, [KeysCall]))"

text \<open>
  The whole block: the keys (or the error thrown by the enumeration), the cache
  afterwards, and the remote calls made.
\<close>

definition lookup_keys ::
  "chain \<Rightarrow> int \<Rightarrow> worker_cache \<Rightarrow> (error + worker_key list) \<times> worker_cache \<times> call list" where
  "lookup_keys ch now c =
     (if cache_valid now c then
        (case data c of Some ks \<Rightarrow> (Inr ks, c, []) | None \<Rightarrow> refresh_keys ch now c)
      else refresh_keys ch now c)"

section \<open>TEE type detection and filters\<close>

text \<open>The \<^verbatim>\<open>if / else if\<close> chain that sets \<^verbatim>\<open>detectedTeeType\<close>.\<close>

definition detectedTeeType :: "string option \<Rightarrow> int list \<Rightarrow> string" where
  "detectedTeeType method fs =
     (if method = Some ''Ias'' \<or> 1 \<in> set fs then ''Intel SGX''
      else if method = Some ''Dcap'' \<or> 2 \<in> set fs then ''Intel TDX''
      else if 3 \<in> set fs then ''AMD SEV''
      else if 4 \<in> set fs then ''NVIDIA Confidential Computing''
      else ''Unknown'')"

text \<open>
  The two \<^verbatim>\<open>continue\<close> guards, negated: a worker is kept when the guard is false.
  \<^verbatim>\<open>if (onlineOnly && workerState !== 'Ready' && workerState !== 'WorkerIdle') continue;\<close>
  \<^verbatim>\<open>if (teeType && detectedTeeType !== teeType && detectedTeeType !== 'Unknown') continue;\<close>
\<close>

definition online_skip :: "bool \<Rightarrow> string \<Rightarrow> bool" where
  "online_skip onlineOnly workerState =
     (onlineOnly \<and> workerState \<noteq> ''Ready'' \<and> workerState \<noteq> ''WorkerIdle'')"

definition tee_skip :: "string option \<Rightarrow> string \<Rightarrow> bool" where
  "tee_skip teeTypeArg detected =
     (truthy teeTypeArg \<and> Some detected \<noteq> teeTypeArg \<and> detected \<noteq> ''Unknown'')"

section \<open>The enrichment loop\<close>

text \<open>The worker-state query with its own \<^verbatim>\<open>try / catch\<close>: any failure leaves \<^verbatim>\<open>'Unknown'\<close>.\<close>

definition query_state :: "chain \<Rightarrow> worker_key \<Rightarrow> string \<times> call list" where
  "query_state ch k =
     (case query_workerState ch of
        None \<Rightarrow> (''Unknown'', [])
      | Some q \<Rightarrow>
          (case q k of
             Inl e \<Rightarrow> (''Unknown'', [WorkerStateCall k])
           | Inr None \<Rightarrow> (''Unknown'', [WorkerStateCall k])
           | Inr (Some s) \<Rightarrow> (s, [WorkerStateCall k])))"

text \<open>
  How one pass through the loop body ends: by a \<^verbatim>\<open>continue\<close> (which jumps over
  \<^verbatim>\<open>processedCount++\<close>), by the \<^verbatim>\<open>push\<close>, or in the \<^verbatim>\<open>catch\<close>.
\<close>

datatype outcome = Continue | Pushed worker | Caught error

definition process_key ::
  "chain \<Rightarrow> bool \<Rightarrow> string option \<Rightarrow> worker_key \<Rightarrow> outcome \<times> call list" where
  "process_key ch onlineOnly teeTypeArg k =
     (case query_workers ch k of
        Inl e \<Rightarrow> (Caught e, [WorkersCall k])
      | Inr None \<Rightarrow> (Continue, [WorkersCall k])
      | Inr (Some info) \<Rightarrow>
          (case query_state ch k of (workerState, cs) \<Rightarrow>
             if online_skip onlineOnly workerState then (Continue, WorkersCall k # cs)
             else
               (let fs = (case info_features info of None \<Rightarrow> [] | Some l \<Rightarrow> l);
                    detected = detectedTeeType (info_attestationMethod info) fs
                in if tee_skip teeTypeArg detected then (Continue, WorkersCall k # cs)
                   else
                     (Pushed
                        \<lparr>publicKey = k,
                         confidenceLevel = or_zero (info_confidenceLevel info),
                         runtimeVersion = or_zero (info_runtimeVersion info),
                         attestationMethod = or_string (info_attestationMethod info) ''Unknown'',
                         features = fs,
                         teeType = detected,
                         state = workerState,
                         initialScore = or_null (info_initialScore info),
                         lastUpdated = or_null (info_lastUpdated info)\<rparr>,
                      WorkersCall k # cs))))"

definition maxToProcess :: "int \<Rightarrow> int" where
  "maxToProcess limit = min (limit * 3) 30"

text \<open>
  \<^verbatim>\<open>for (const key of workerKeys)\<close> with its two \<^verbatim>\<open>break\<close> tests; the accumulators
  are \<^verbatim>\<open>workerList\<close>, \<^verbatim>\<open>processedCount\<close> and the call log.
\<close>

fun worker_loop ::
  "chain \<Rightarrow> int \<Rightarrow> bool \<Rightarrow> string option \<Rightarrow> worker_key list \<Rightarrow>
   worker list \<Rightarrow> nat \<Rightarrow> call list \<Rightarrow> worker list \<times> nat \<times> call list" where
  "worker_loop ch limit onlineOnly teeTypeArg [] workerList processedCount log =
     (workerList, processedCount, log)"
| "worker_loop ch limit onlineOnly teeTypeArg (k # ks) workerList processedCount log =
     (if int processedCount \<ge> maxToProcess limit then (workerList, processedCount, log)
      else if int (length workerList) \<ge> limit then (workerList, processedCount, log)
      else
        (case process_key ch onlineOnly teeTypeArg k of
           (Continue, cs) \<Rightarrow>
             worker_loop ch limit onlineOnly teeTypeArg ks workerList processedCount (log @ cs)
         | (Pushed w, cs) \<Rightarrow>
             worker_loop ch limit onlineOnly teeTypeArg ks (workerList @ [w])
               (Suc processedCount) (log @ cs)
         | (Caught e, cs) \<Rightarrow>
             worker_loop ch limit onlineOnly teeTypeArg ks workerList
               (Suc processedCount) (log @ cs)))"

section \<open>getWorkerList\<close>

text \<open>
  The tool's handler, after the schema's defaults: \<open>limit\<close> is taken as an integer
  (of either sign), \<open>teeTypeArg\<close> is \<open>None\<close> when no \<^verbatim>\<open>teeType\<close> is given, and
  \<open>now\<close> is \<^verbatim>\<open>Date.now()\<close> in milliseconds. An exception that reaches the outer
  \<^verbatim>\<open>catch\<close> becomes the error text; the cache and the calls made so far remain.
\<close>

definition getWorkerList ::
  "chain \<Rightarrow> int \<Rightarrow> worker_cache \<Rightarrow> int \<Rightarrow> bool \<Rightarrow> string option \<Rightarrow>
   list_response \<times> worker_cache \<times> call list" where
  "getWorkerList ch now c limit onlineOnly teeTypeArg =
     (case init_api ch of
        Some e \<Rightarrow> (ListError (''Error getting worker list: '' @ message e), c, [])
      | None \<Rightarrow>
          (case lookup_keys ch now c of
             (Inl e, c', cs) \<Rightarrow>
               (ListError (''Error getting worker list: '' @ message e), c', cs)
           | (Inr workerKeys, c', cs) \<Rightarrow>
               if length workerKeys = 0 then
                 (Listing
                    \<lparr>totalWorkers = 0, showing = 0, processed = None,
                     filters_onlineOnly = onlineOnly,
                     filters_teeType = or_string teeTypeArg ''all'',
                     workers = [],
                     listing_message = Some ''No workers registered on the network''\<rparr>,
                  c', cs)
               else
                 (case worker_loop ch limit onlineOnly teeTypeArg workerKeys [] 0 cs of
                    (workerList, processedCount, log) \<Rightarrow>
                      (Listing
                         \<lparr>totalWorkers = length workerKeys,
                          showing = length workerList,
                          processed = Some processedCount,
                          filters_onlineOnly = onlineOnly,
                          filters_teeType = or_string teeTypeArg ''all'',
                          workers = workerList,
                          listing_message = None\<rparr>,
                       c', log))))"

section \<open>verifyAttestation\<close>

text \<open>\<^verbatim>\<open>response.data\<close> of the attestation service.\<close>

record verifier_data =
  data_verified :: bool
  data_type :: string
  data_confidenceLevel :: int
  data_timestamp :: int
  data_details :: string

text \<open>
  The attestation service answers the posted body \<^verbatim>\<open>{workerKey, report}\<close>; \<open>Inl\<close> is
  whatever makes the \<^verbatim>\<open>try\<close> block throw (network error, non-2xx status, a payload
  without \<^verbatim>\<open>data\<close>).
\<close>

type_synonym verifier = "worker_key \<Rightarrow> string option \<Rightarrow> error + verifier_data"

datatype attestation_response =
    PrimaryResult worker_key bool string int int string
  | OnChainResult (oc_worker: worker_key) (onChainVerified: bool)
      (oc_confidenceLevel: int) (oc_note: string)
  | AttestationError string

text \<open>The inner \<^verbatim>\<open>try\<close> block of the fallback: the worker's info, or the error thrown.\<close>

definition on_chain_lookup :: "chain \<Rightarrow> worker_key \<Rightarrow> error + worker_info" where
  "on_chain_lookup ch workerPublicKey =
     (case init_api ch of
        Some e \<Rightarrow> Inl e
      | None \<Rightarrow>
          (case query_workers ch workerPublicKey of
             Inl e \<Rightarrow> Inl e
           | Inr None \<Rightarrow> Inl (Error ''Worker not found'')
           | Inr (Some info) \<Rightarrow> Inr info))"

definition verifyAttestation ::
  "verifier \<Rightarrow> chain \<Rightarrow> worker_key \<Rightarrow> string option \<Rightarrow> attestation_response" where
  "verifyAttestation post ch workerPublicKey reportData =
     (case post workerPublicKey reportData of
        Inr d \<Rightarrow>
          PrimaryResult workerPublicKey (data_verified d) (data_type d)
            (data_confidenceLevel d) (data_timestamp d) (data_details d)
      | Inl err \<Rightarrow>
          (case on_chain_lookup ch workerPublicKey of
             Inr info \<Rightarrow>
               OnChainResult workerPublicKey True (or_zero (info_confidenceLevel info))
                 ''Attestation verified on-chain''
           | Inl onChainError \<Rightarrow>
               AttestationError (''Error verifying attestation: '' @ message err)))"

section \<open>The spec's reference definitions\<close>

text \<open>
  A precedence table is a list of rules, each a test on (attestation method, feature
  flags) with the category it yields; the first rule whose test holds wins.
\<close>

type_synonym rule = "(string option \<Rightarrow> int list \<Rightarrow> bool) \<times> string"

fun first_match :: "rule list \<Rightarrow> string \<Rightarrow> string option \<Rightarrow> int list \<Rightarrow> string" where
  "first_match [] dflt method fs = dflt"
| "first_match ((test, category) # rules) dflt method fs =
     (if test method fs then category else first_match rules dflt method fs)"

text \<open>
  The table as the spec words it: MethodA (\<^verbatim>\<open>Ias\<close>), MethodB (\<^verbatim>\<open>Dcap\<close>), flag 3,
  flag 4, else Unknown.
\<close>

definition spec_rules :: "rule list" where
  "spec_rules =
     [(\<lambda>method fs. method = Some ''Ias'', ''Intel SGX''),
      (\<lambda>method fs. method = Some ''Dcap'', ''Intel TDX''),
      (\<lambda>method fs. 3 \<in> set fs, ''AMD SEV''),
      (\<lambda>method fs. 4 \<in> set fs, ''NVIDIA Confidential Computing'')]"

text \<open>The table the source's conditions spell out: flags 1 and 2 stand beside the methods.\<close>

definition source_rules :: "rule list" where
  "source_rules =
     [(\<lambda>method fs. method = Some ''Ias'' \<or> 1 \<in> set fs, ''Intel SGX''),
      (\<lambda>method fs. method = Some ''Dcap'' \<or> 2 \<in> set fs, ''Intel TDX''),
      (\<lambda>method fs. 3 \<in> set fs, ''AMD SEV''),
      (\<lambda>method fs. 4 \<in> set fs, ''NVIDIA Confidential Computing'')]"

text \<open>
  The filter as the spec words it: \<open>onlineOnly\<close> asks for Ready or Idle; a category
  filter, when present, asks for that category or Unknown; both are conjoined.
\<close>

definition matches_spec :: "bool \<Rightarrow> string option \<Rightarrow> string \<Rightarrow> string \<Rightarrow> bool" where
  "matches_spec onlineOnly categoryFilter livenessState category =
     ((if onlineOnly then livenessState = ''Ready'' \<or> livenessState = ''WorkerIdle'' else True) \<and>
      (case categoryFilter of
         None \<Rightarrow> True
       | Some wanted \<Rightarrow> category = wanted \<or> category = ''Unknown''))"

section \<open>Concrete scenarios\<close>

definition example_info :: worker_info where
  "example_info =
     \<lparr>info_confidenceLevel = Some 3, info_runtimeVersion = Some 7,
      info_attestationMethod = Some ''Ias'', info_features = Some [3, 4],
      info_initialScore = None, info_lastUpdated = Some 100\<rparr>"

text \<open>Four registered workers, every one of them unresponsive.\<close>

definition unresponsive_chain :: chain where
  "unresponsive_chain =
     \<lparr>init_api = None,
      query_keys = Inr [''0x01'', ''0x02'', ''0x03'', ''0x04''],
      query_workers = (\<lambda>k. Inr (Some example_info)),
      query_workerState = Some (\<lambda>k. Inr (Some ''WorkerUnresponsive''))\<rparr>"

text \<open>A registry that holds exactly one worker.\<close>

definition registry_with :: "worker_key \<Rightarrow> worker_info \<Rightarrow> chain" where
  "registry_with key info =
     \<lparr>init_api = None,
      query_keys = Inr [key],
      query_workers = (\<lambda>k. if k = key then Inr (Some info) else Inr None),
      query_workerState = None\<rparr>"

text \<open>An attestation service that cannot be reached.\<close>

definition unreachable_verifier :: verifier where
  "unreachable_verifier workerKey report = Inl (Error ''Network Error'')"

text \<open>
  An attestation service that rejects a request without a report as a bad request and
  fails internally on any report it is sent.
\<close>

definition picky_verifier :: verifier where
  "picky_verifier workerKey report =
     (case report of
        None \<Rightarrow> Inl (Error ''Request failed with status code 400'')
      | Some r \<Rightarrow> Inl (Error ''Request failed with status code 500''))"

section \<open>Loop invariants\<close>

lemmas eval_defs =
  getWorkerList_def lookup_keys_def refresh_keys_def cache_valid_def TTL_def initial_cache_def
  process_key_def query_state_def online_skip_def tee_skip_def truthy_def detectedTeeType_def
  maxToProcess_def or_zero_def or_null_def or_string_def example_info_def
  unresponsive_chain_def

text \<open>
  Every push is followed by \<^verbatim>\<open>processedCount++\<close>, and a push happens only below the
  limit: the list never outgrows the limit nor the counter.
\<close>

lemma worker_loop_shown:
  "worker_loop ch limit oo tt ks wl pc log = (wl', pc', log') \<Longrightarrow> 0 \<le> limit \<Longrightarrow>
   int (length wl) \<le> limit \<Longrightarrow> length wl \<le> pc \<Longrightarrow>
   int (length wl') \<le> limit \<and> length wl' \<le> pc'"
proof (induction ks arbitrary: wl pc log)
  case Nil
  then show ?case by simp
next
  case (Cons k ks)
  show ?case
  proof (cases "int pc \<ge> maxToProcess limit \<or> int (length wl) \<ge> limit")
    case True
    with Cons.prems show ?thesis by (auto split: if_splits)
  next
    case False
    obtain oc cs where pk: "process_key ch oo tt k = (oc, cs)"
      by (cases "process_key ch oo tt k")
    show ?thesis
    proof (cases oc)
      case Continue
      with Cons.prems False pk
      have "worker_loop ch limit oo tt ks wl pc (log @ cs) = (wl', pc', log')"
        by simp
      from Cons.IH[OF this] Cons.prems show ?thesis by simp
    next
      case (Pushed w)
      with Cons.prems False pk
      have "worker_loop ch limit oo tt ks (wl @ [w]) (Suc pc) (log @ cs) = (wl', pc', log')"
        by simp
      from Cons.IH[OF this] Cons.prems False show ?thesis by simp
    next
      case (Caught e)
      with Cons.prems False pk
      have "worker_loop ch limit oo tt ks wl (Suc pc) (log @ cs) = (wl', pc', log')"
        by simp
      from Cons.IH[OF this] Cons.prems show ?thesis by simp
    qed
  qed
qed

text \<open>The counter is only incremented below \<^verbatim>\<open>maxToProcess\<close>.\<close>

lemma worker_loop_processed:
  "worker_loop ch limit oo tt ks wl pc log = (wl', pc', log') \<Longrightarrow>
   int pc \<le> max 0 (maxToProcess limit) \<Longrightarrow> int pc' \<le> max 0 (maxToProcess limit)"
proof (induction ks arbitrary: wl pc log)
  case Nil
  then show ?case by simp
next
  case (Cons k ks)
  show ?case
  proof (cases "int pc \<ge> maxToProcess limit \<or> int (length wl) \<ge> limit")
    case True
    with Cons.prems show ?thesis by (auto split: if_splits)
  next
    case False
    obtain oc cs where pk: "process_key ch oo tt k = (oc, cs)"
      by (cases "process_key ch oo tt k")
    show ?thesis
    proof (cases oc)
      case Continue
      with Cons.prems False pk
      have "worker_loop ch limit oo tt ks wl pc (log @ cs) = (wl', pc', log')"
        by simp
      from Cons.IH[OF this] Cons.prems show ?thesis by simp
    next
      case (Pushed w)
      with Cons.prems False pk
      have "worker_loop ch limit oo tt ks (wl @ [w]) (Suc pc) (log @ cs) = (wl', pc', log')"
        by simp
      from Cons.IH[OF this] Cons.prems False show ?thesis by simp
    next
      case (Caught e)
      with Cons.prems False pk
      have "worker_loop ch limit oo tt ks wl (Suc pc) (log @ cs) = (wl', pc', log')"
        by simp
      from Cons.IH[OF this] Cons.prems False show ?thesis by simp
    qed
  qed
qed

text \<open>The loop only ever queries single workers: it never enumerates the key set.\<close>

lemma process_key_no_enumeration: "KeysCall \<notin> set (snd (process_key ch oo tt k))"
  by (auto simp add: process_key_def query_state_def Let_def
      split: sum.splits option.splits prod.splits)

lemma worker_loop_no_enumeration:
  "KeysCall \<notin> set log \<Longrightarrow>
   KeysCall \<notin> set (snd (snd (worker_loop ch limit oo tt ks wl pc log)))"
proof (induction ks arbitrary: wl pc log)
  case Nil
  then show ?case by simp
next
  case (Cons k ks)
  obtain oc cs where pk: "process_key ch oo tt k = (oc, cs)"
    by (cases "process_key ch oo tt k")
  with process_key_no_enumeration[of ch oo tt k] have "KeysCall \<notin> set cs" by simp
  with Cons.prems have "KeysCall \<notin> set (log @ cs)" by simp
  from this Cons.IH pk Cons.prems show ?case
    by (cases oc) simp_all
qed

text \<open>
  The reported counter itself stays within the window for a non-negative limit; what
  escapes the window is the probing of keys that leave the body by \<^verbatim>\<open>continue\<close>.
\<close>

lemma getWorkerList_processed:
  assumes "0 \<le> limit"
    and "getWorkerList ch now c limit onlineOnly teeTypeArg = (Listing l, c', log)"
    and "processed l = Some p"
  shows "int p \<le> min (limit * 3) 30"
proof -
  from assms obtain workerKeys cs wl lg where
    loop: "worker_loop ch limit onlineOnly teeTypeArg workerKeys [] 0 cs = (wl, p, lg)"
    by (auto simp add: getWorkerList_def split: option.splits sum.splits prod.splits if_splits)
  from worker_loop_processed[OF loop] assms(1) show ?thesis
    by (simp add: maxToProcess_def)
qed

section \<open>Claims about getWorkerList\<close>

text \<open>
  C1. Let a first call enumerate the identity source at time \<open>now1\<close> and obtain the
  keys \<open>ks\<close>. A second call at \<open>now2\<close> with \<open>now2 - now1 < 60000\<close> gets the same
  key sequence from the cache, leaves the cache entry as it is and issues no enumeration,
  whatever the source would answer by then. With \<open>now2 - now1 \<ge> 60000\<close> the call
  enumerates again, and when the enumeration returns \<open>ks'\<close> the cache entry becomes
  \<open>ks'\<close> stamped \<open>now2\<close>.
\<close>

theorem C1_cache_ttl:
  assumes first: "lookup_keys ch1 now1 c0 = (Inr ks, c1, [KeysCall])"
  shows "(now2 - now1 < 60000 \<longrightarrow>
            lookup_keys ch2 now2 c1 = (Inr ks, c1, []) \<and>
            fst (snd (getWorkerList ch2 now2 c1 limit onlineOnly teeTypeArg)) = c1 \<and>
            KeysCall \<notin> set (snd (snd (getWorkerList ch2 now2 c1 limit onlineOnly teeTypeArg)))) \<and>
         (60000 \<le> now2 - now1 \<longrightarrow>
            snd (snd (lookup_keys ch2 now2 c1)) = [KeysCall] \<and>
            (\<forall>ks'. query_keys ch2 = Inr ks' \<longrightarrow>
               lookup_keys ch2 now2 c1 =
                 (Inr ks', \<lparr>data = Some ks', timestamp = now2\<rparr>, [KeysCall])))"
proof -
  from first have c1: "c1 = \<lparr>data = Some ks, timestamp = now1\<rparr>"
    by (auto simp add: lookup_keys_def refresh_keys_def split: option.splits sum.splits if_splits)
  have hit: "lookup_keys ch2 now2 c1 = (Inr ks, c1, [])" if "now2 - now1 < 60000"
    using that c1 by (simp add: lookup_keys_def cache_valid_def TTL_def)
  have unchanged: "fst (snd (getWorkerList ch2 now2 c1 limit onlineOnly teeTypeArg)) = c1"
    if "now2 - now1 < 60000"
    using hit[OF that]
    by (simp add: getWorkerList_def split: option.splits prod.splits)
  have quiet: "KeysCall \<notin> set (snd (snd (getWorkerList ch2 now2 c1 limit onlineOnly teeTypeArg)))"
    if "now2 - now1 < 60000"
  proof (cases "init_api ch2")
    case (Some e)
    then show ?thesis by (simp add: getWorkerList_def)
  next
    case None
    have "KeysCall \<notin> set (snd (snd (worker_loop ch2 limit onlineOnly teeTypeArg ks [] 0 [])))"
      by (rule worker_loop_no_enumeration) simp
    with None hit[OF that] show ?thesis
      by (auto simp add: getWorkerList_def split: prod.splits)
  qed
  have miss: "snd (snd (lookup_keys ch2 now2 c1)) = [KeysCall] \<and>
            (\<forall>ks'. query_keys ch2 = Inr ks' \<longrightarrow>
               lookup_keys ch2 now2 c1 =
                 (Inr ks', \<lparr>data = Some ks', timestamp = now2\<rparr>, [KeysCall]))"
    if "60000 \<le> now2 - now1"
    using that c1
    by (auto simp add: lookup_keys_def refresh_keys_def cache_valid_def TTL_def split: sum.splits)
  from hit unchanged quiet miss show ?thesis by blast
qed

text \<open>
  The registry holds four keys at time 0 and a single other key afterwards: at 59999 the
  four cached keys are served without an enumeration, at 60000 the new key is fetched.
\<close>

theorem C1_cache_ttl_witness:
  "lookup_keys unresponsive_chain 0 initial_cache =
     (Inr [''0x01'', ''0x02'', ''0x03'', ''0x04''],
      \<lparr>data = Some [''0x01'', ''0x02'', ''0x03'', ''0x04''], timestamp = 0\<rparr>, [KeysCall]) \<and>
   lookup_keys (registry_with ''0x09'' example_info) 59999
       \<lparr>data = Some [''0x01'', ''0x02'', ''0x03'', ''0x04''], timestamp = 0\<rparr> =
     (Inr [''0x01'', ''0x02'', ''0x03'', ''0x04''],
      \<lparr>data = Some [''0x01'', ''0x02'', ''0x03'', ''0x04''], timestamp = 0\<rparr>, []) \<and>
   KeysCall \<notin> set (snd (snd (getWorkerList (registry_with ''0x09'' example_info) 59999
       \<lparr>data = Some [''0x01'', ''0x02'', ''0x03'', ''0x04''], timestamp = 0\<rparr> 10 False None))) \<and>
   lookup_keys (registry_with ''0x09'' example_info) 60000
       \<lparr>data = Some [''0x01'', ''0x02'', ''0x03'', ''0x04''], timestamp = 0\<rparr> =
     (Inr [''0x09''], \<lparr>data = Some [''0x09''], timestamp = 60000\<rparr>, [KeysCall])"
proof -
  have first: "lookup_keys unresponsive_chain 0 initial_cache =
     (Inr [''0x01'', ''0x02'', ''0x03'', ''0x04''],
      \<lparr>data = Some [''0x01'', ''0x02'', ''0x03'', ''0x04''], timestamp = 0\<rparr>, [KeysCall])"
    by (simp add: lookup_keys_def refresh_keys_def cache_valid_def initial_cache_def
        unresponsive_chain_def)
  have src: "query_keys (registry_with ''0x09'' example_info) = Inr [''0x09'']"
    by (simp add: registry_with_def)
  from C1_cache_ttl[OF first, where ?now2.0 = 59999 and ?ch2.0 = "registry_with ''0x09'' example_info"
      and limit = 10 and onlineOnly = False and teeTypeArg = None]
    C1_cache_ttl[OF first, where ?now2.0 = 60000 and ?ch2.0 = "registry_with ''0x09'' example_info"]
    first src
  show ?thesis by simp
qed

text \<open>
  C2. The claim bounds the keys probed in one call by \<open>min (3 * N) 30\<close>. For limit 1
  with \<^verbatim>\<open>onlineOnly\<close> set and four unresponsive workers, the call queries all four keys
  although the window is three, and reports \<^verbatim>\<open>processed = 0\<close>: a worker rejected by a
  filter leaves the body by \<^verbatim>\<open>continue\<close> and is never counted.
\<close>

theorem C2_probes_exceed_window:
  "\<exists>l c' log.
     getWorkerList unresponsive_chain 0 initial_cache 1 True None = (Listing l, c', log) \<and>
     probed log = [''0x01'', ''0x02'', ''0x03'', ''0x04''] \<and> maxToProcess 1 = 3 \<and>
     processed l = Some 0 \<and> workers l = []"
  by (simp add: eval_defs)

text \<open>
  C3. A successful \<^verbatim>\<open>getWorkerList\<close> call with a limit \<open>N\<close> (a non-negative integer)
  returns at most \<open>N\<close> records, \<^verbatim>\<open>showing\<close> is the number of records returned, and
  whenever the \<^verbatim>\<open>processed\<close> counter is reported it is at least \<^verbatim>\<open>showing\<close>.
\<close>

theorem C3_shown_le_limit:
  assumes "0 \<le> limit"
    and "getWorkerList ch now c limit onlineOnly teeTypeArg = (Listing l, c', log)"
  shows "int (length (workers l)) \<le> limit \<and> showing l = length (workers l) \<and>
         int (showing l) \<le> limit \<and> (\<forall>p. processed l = Some p \<longrightarrow> showing l \<le> p)"
proof (cases "lookup_keys ch now c")
  case (fields r c1 cs)
  show ?thesis
  proof (cases r)
    case (Inl e)
    with assms fields show ?thesis
      by (simp add: getWorkerList_def split: option.splits)
  next
    case (Inr workerKeys)
    show ?thesis
    proof (cases "length workerKeys = 0")
      case True
      with assms fields Inr
      have "workers l = []" "showing l = 0" "processed l = None"
        by (auto simp add: getWorkerList_def split: option.splits)
      with assms show ?thesis by simp
    next
      case False
      obtain wl pc lg where
        loop: "worker_loop ch limit onlineOnly teeTypeArg workerKeys [] 0 cs = (wl, pc, lg)"
        by (cases "worker_loop ch limit onlineOnly teeTypeArg workerKeys [] 0 cs")
      with assms fields Inr False
      have l: "workers l = wl" "showing l = length wl" "processed l = Some pc"
        by (auto simp add: getWorkerList_def split: option.splits)
      from worker_loop_shown[OF loop] assms(1)
      have "int (length wl) \<le> limit \<and> length wl \<le> pc" by simp
      with l show ?thesis by simp
    qed
  qed
qed

theorem C3_shown_le_limit_witness:
  "(0::int) \<le> 3 \<and>
   (\<exists>l c' log.
      getWorkerList unresponsive_chain 0 initial_cache 3 False None = (Listing l, c', log) \<and>
      length (workers l) = 3 \<and> showing l = 3 \<and> processed l = Some 3 \<and>
      int (length (workers l)) \<le> 3 \<and> int (showing l) \<le> 3)"
proof -
  have h: "(0::int) \<le> 3" by simp
  obtain l c' log where
    run: "getWorkerList unresponsive_chain 0 initial_cache 3 False None = (Listing l, c', log)"
    and vals: "length (workers l) = 3" "processed l = Some 3"
    by (simp add: eval_defs)
  from C3_shown_le_limit[OF h run] vals run show ?thesis by simp
qed

text \<open>
  C4. The detected TEE type is a function of the attestation method and the feature
  list alone, and it is the first match of the source's table: method \<^verbatim>\<open>Ias\<close> or
  flag 1 gives Intel SGX; else method \<^verbatim>\<open>Dcap\<close> or flag 2 gives Intel TDX; else flag 3
  gives AMD SEV; else flag 4 gives NVIDIA Confidential Computing; else Unknown. It agrees
  with the spec's table whenever the features hold neither flag 1 nor flag 2, and method
  \<^verbatim>\<open>Ias\<close> with flags 3 and 4 is Intel SGX.
\<close>

theorem C4_source_table:
  "detectedTeeType method fs = first_match source_rules ''Unknown'' method fs \<and>
   (1 \<notin> set fs \<and> 2 \<notin> set fs \<longrightarrow>
      detectedTeeType method fs = first_match spec_rules ''Unknown'' method fs) \<and>
   detectedTeeType (Some ''Ias'') [3, 4] = ''Intel SGX''"
  by (simp add: detectedTeeType_def source_rules_def spec_rules_def)

theorem C4_source_table_witness:
  "(1::int) \<notin> set [3, 4] \<and> (2::int) \<notin> set [3, 4] \<and>
   detectedTeeType (Some ''Dcap'') [3, 4] = ''Intel TDX'' \<and>
   first_match spec_rules ''Unknown'' (Some ''Dcap'') [3, 4] = ''Intel TDX''"
  using C4_source_table[of "Some ''Dcap''" "[3, 4]"]
  by (simp add: spec_rules_def source_rules_def)

text \<open>
  Against the spec's table: method \<^verbatim>\<open>Dcap\<close> with flag 1 is detected as Intel SGX where
  the table says Intel TDX, and no method with flags 2 and 3 is detected as Intel TDX
  where the table says AMD SEV.
\<close>

theorem C4_spec_table_counterexample:
  "detectedTeeType (Some ''Dcap'') [1] = ''Intel SGX'' \<and>
   first_match spec_rules ''Unknown'' (Some ''Dcap'') [1] = ''Intel TDX'' \<and>
   detectedTeeType None [2, 3] = ''Intel TDX'' \<and>
   first_match spec_rules ''Unknown'' None [2, 3] = ''AMD SEV''"
  by (simp add: detectedTeeType_def spec_rules_def)

text \<open>
  C5. For a worker whose info query succeeds and a TEE type argument that is absent or a
  non-empty string, the loop body pushes the record exactly when the spec's filter
  accepts the worker's state and detected TEE type, and leaves by \<^verbatim>\<open>continue\<close> exactly
  when it rejects them; the TEE type guard never skips a worker detected as Unknown.
\<close>

theorem C5_filter:
  assumes "query_workers ch k = Inr (Some info)"
    and "teeTypeArg \<noteq> Some []"
  shows "(\<exists>w cs. process_key ch onlineOnly teeTypeArg k = (Pushed w, cs)) =
           matches_spec onlineOnly teeTypeArg (fst (query_state ch k))
             (detectedTeeType (info_attestationMethod info)
                (case info_features info of None \<Rightarrow> [] | Some l \<Rightarrow> l)) \<and>
         (\<exists>cs. process_key ch onlineOnly teeTypeArg k = (Continue, cs)) =
           (\<not> matches_spec onlineOnly teeTypeArg (fst (query_state ch k))
             (detectedTeeType (info_attestationMethod info)
                (case info_features info of None \<Rightarrow> [] | Some l \<Rightarrow> l))) \<and>
         \<not> tee_skip teeTypeArg ''Unknown''"
  using assms
  by (cases "query_state ch k"; cases teeTypeArg)
     (auto simp add: process_key_def matches_spec_def online_skip_def tee_skip_def truthy_def
        Let_def)

theorem C5_filter_witness:
  "query_workers (registry_with ''0x01'' example_info) ''0x01'' = Inr (Some example_info) \<and>
   Some ''AMD SEV'' \<noteq> Some [] \<and>
   (\<exists>cs. process_key (registry_with ''0x01'' example_info) False (Some ''AMD SEV'') ''0x01'' =
      (Continue, cs)) \<and>
   \<not> matches_spec False (Some ''AMD SEV'') ''Unknown'' ''Intel SGX''"
proof -
  have h1: "query_workers (registry_with ''0x01'' example_info) ''0x01'' = Inr (Some example_info)"
    by (simp add: registry_with_def)
  have h2: "Some ''AMD SEV'' \<noteq> Some []" by simp
  from C5_filter[OF h1 h2, of False] h1 show ?thesis
    by (simp add: registry_with_def example_info_def query_state_def detectedTeeType_def
        matches_spec_def)
qed

text \<open>
  C6. When the api is available, the cache entry is not valid and the enumeration fails
  with an error \<open>e\<close>, the call answers with the error text carrying \<open>e\<close>'s message and
  leaves the cache entry untouched, whether or not an earlier entry is stored. An error
  answer arises exactly when \<^verbatim>\<open>initPhalaAPI\<close> fails, or the entry is not valid and the
  enumeration fails.
\<close>

theorem C6_enumeration_failure:
  "(init_api ch = None \<and> \<not> cache_valid now c \<and> query_keys ch = Inl e \<longrightarrow>
      getWorkerList ch now c limit onlineOnly teeTypeArg =
        (ListError (''Error getting worker list: '' @ message e), c, [KeysCall])) \<and>
   ((\<exists>m. fst (getWorkerList ch now c limit onlineOnly teeTypeArg) = ListError m) =
      (init_api ch \<noteq> None \<or> (\<not> cache_valid now c \<and> (\<exists>e'. query_keys ch = Inl e'))))"
  by (auto simp add: getWorkerList_def lookup_keys_def refresh_keys_def cache_valid_def
      split: option.splits sum.splits prod.splits if_splits)

theorem C6_enumeration_failure_witness:
  "init_api (unresponsive_chain\<lparr>query_keys := Inl (Error ''RPC down'')\<rparr>) = None \<and>
   \<not> cache_valid 5 initial_cache \<and>
   query_keys (unresponsive_chain\<lparr>query_keys := Inl (Error ''RPC down'')\<rparr>) =
     Inl (Error ''RPC down'') \<and>
   getWorkerList (unresponsive_chain\<lparr>query_keys := Inl (Error ''RPC down'')\<rparr>) 5
       initial_cache 10 False None =
     (ListError ''Error getting worker list: RPC down'', initial_cache, [KeysCall])"
proof -
  have h: "init_api (unresponsive_chain\<lparr>query_keys := Inl (Error ''RPC down'')\<rparr>) = None \<and>
      \<not> cache_valid 5 initial_cache \<and>
      query_keys (unresponsive_chain\<lparr>query_keys := Inl (Error ''RPC down'')\<rparr>) =
        Inl (Error ''RPC down'')"
    by (simp add: unresponsive_chain_def cache_valid_def initial_cache_def)
  from C6_enumeration_failure[of "unresponsive_chain\<lparr>query_keys := Inl (Error ''RPC down'')\<rparr>"
      5 initial_cache "Error ''RPC down''" 10 False None] h
  show ?thesis by simp
qed

text \<open>
  A stale entry is not served: the entry fetched at time 0 is stored, the call comes at
  60000, the enumeration fails, and the answer is the error text.
\<close>

theorem C6_stale_cache_counterexample:
  "getWorkerList (unresponsive_chain\<lparr>query_keys := Inl (Error ''RPC down'')\<rparr>) 60000
       \<lparr>data = Some [''0x01''], timestamp = 0\<rparr> 10 False None =
     (ListError ''Error getting worker list: RPC down'',
      \<lparr>data = Some [''0x01''], timestamp = 0\<rparr>, [KeysCall])"
  by (simp add: eval_defs)

text \<open>A listing is only ever answered from a retrieved key set.\<close>

lemma getWorkerList_listing_keys:
  assumes "getWorkerList ch now c limit onlineOnly teeTypeArg = (Listing l, c', log)"
  shows "init_api ch = None \<and> (\<exists>workerKeys cs. lookup_keys ch now c = (Inr workerKeys, c', cs))"
  using assms
  by (auto simp add: getWorkerList_def split: option.splits sum.splits prod.splits if_splits)

text \<open>
  C9. Whenever \<^verbatim>\<open>initPhalaAPI\<close> succeeds and the key set is retrieved (from the cache or
  by enumeration), the call answers with a listing whose \<^verbatim>\<open>totalWorkers\<close> is the number
  of keys retrieved and whose \<^verbatim>\<open>showing\<close> is the number of records returned. For a
  non-empty key set the listing reports \<^verbatim>\<open>processed\<close>, the counter the loop ends with,
  beside the records the loop collected. For an empty key set the listing has
  \<^verbatim>\<open>totalWorkers = 0\<close>, \<^verbatim>\<open>showing = 0\<close>, no records, the message
  "No workers registered on the network" and no \<^verbatim>\<open>processed\<close> field.
\<close>

theorem C9_counters_reported:
  assumes "init_api ch = None"
    and "lookup_keys ch now c = (Inr workerKeys, c1, cs)"
  shows "\<exists>l log.
           getWorkerList ch now c limit onlineOnly teeTypeArg = (Listing l, c1, log) \<and>
           totalWorkers l = length workerKeys \<and>
           showing l = length (workers l) \<and>
           (workerKeys = [] \<longrightarrow>
              totalWorkers l = 0 \<and> showing l = 0 \<and> workers l = [] \<and> processed l = None \<and>
              listing_message l = Some ''No workers registered on the network'' \<and> log = cs) \<and>
           (workerKeys \<noteq> [] \<longrightarrow>
              (workers l, processed l, log) =
                (case worker_loop ch limit onlineOnly teeTypeArg workerKeys [] 0 cs of
                   (workerList, processedCount, lg) \<Rightarrow> (workerList, Some processedCount, lg)) \<and>
              listing_message l = None)"
proof (cases "workerKeys = []")
  case True
  with assms show ?thesis
    by (simp add: getWorkerList_def)
next
  case False
  obtain wl pc lg where
    loop: "worker_loop ch limit onlineOnly teeTypeArg workerKeys [] 0 cs = (wl, pc, lg)"
    by (cases "worker_loop ch limit onlineOnly teeTypeArg workerKeys [] 0 cs")
  with assms False show ?thesis
    by (simp add: getWorkerList_def)
qed

text \<open>
  Four keys are enumerated and the limit is 2: the listing counts four workers, shows
  two and reports two processed.
\<close>

theorem C9_counters_reported_witness:
  "init_api unresponsive_chain = None \<and>
   lookup_keys unresponsive_chain 0 initial_cache =
     (Inr [''0x01'', ''0x02'', ''0x03'', ''0x04''],
      \<lparr>data = Some [''0x01'', ''0x02'', ''0x03'', ''0x04''], timestamp = 0\<rparr>, [KeysCall]) \<and>
   (\<exists>l log.
      getWorkerList unresponsive_chain 0 initial_cache 2 False None =
        (Listing l, \<lparr>data = Some [''0x01'', ''0x02'', ''0x03'', ''0x04''], timestamp = 0\<rparr>, log) \<and>
      totalWorkers l = 4 \<and> showing l = 2 \<and> length (workers l) = 2 \<and> processed l = Some 2 \<and>
      listing_message l = None)"
proof -
  have h1: "init_api unresponsive_chain = None"
    by (simp add: unresponsive_chain_def)
  have h2: "lookup_keys unresponsive_chain 0 initial_cache =
     (Inr [''0x01'', ''0x02'', ''0x03'', ''0x04''],
      \<lparr>data = Some [''0x01'', ''0x02'', ''0x03'', ''0x04''], timestamp = 0\<rparr>, [KeysCall])"
    by (simp add: lookup_keys_def refresh_keys_def cache_valid_def initial_cache_def
        unresponsive_chain_def)
  have run: "worker_loop unresponsive_chain 2 False None
      [''0x01'', ''0x02'', ''0x03'', ''0x04''] [] 0 [KeysCall] = (wl, pc, lg) \<Longrightarrow>
      length wl = 2 \<and> pc = 2" for wl pc lg
    by (auto simp add: eval_defs)
  from C9_counters_reported[OF h1 h2, of 2 False None] obtain l log where
    ans: "getWorkerList unresponsive_chain 0 initial_cache 2 False None =
        (Listing l, \<lparr>data = Some [''0x01'', ''0x02'', ''0x03'', ''0x04''], timestamp = 0\<rparr>, log)"
    and tot: "totalWorkers l = 4" and sh: "showing l = length (workers l)"
    and lp: "(workers l, processed l, log) =
        (case worker_loop unresponsive_chain 2 False None
               [''0x01'', ''0x02'', ''0x03'', ''0x04''] [] 0 [KeysCall] of
           (workerList, processedCount, lg) \<Rightarrow> (workerList, Some processedCount, lg))"
    and msg: "listing_message l = None"
    by auto
  from lp run have "length (workers l) = 2 \<and> processed l = Some 2"
    by (auto split: prod.splits)
  with h1 h2 ans tot sh msg show ?thesis by auto
qed

text \<open>With no key registered the answer carries no \<^verbatim>\<open>processed\<close> field.\<close>

theorem C9_empty_registry_counterexample:
  "getWorkerList (unresponsive_chain\<lparr>query_keys := Inr []\<rparr>) 0 initial_cache 10 False None =
     (Listing
        \<lparr>totalWorkers = 0, showing = 0, processed = None, filters_onlineOnly = False,
         filters_teeType = ''all'', workers = [],
         listing_message = Some ''No workers registered on the network''\<rparr>,
      \<lparr>data = Some [], timestamp = 0\<rparr>, [KeysCall])"
  by (simp add: eval_defs)

section \<open>Claims about verifyAttestation\<close>

text \<open>
  C7. When the request to the primary verifier throws, whatever the error, and the
  on-chain lookup finds the worker, the answer is the on-chain result for that worker
  with \<^verbatim>\<open>onChainVerified: true\<close>, the stored confidence level and the note
  "Attestation verified on-chain".
\<close>

theorem C7_fallback_found:
  assumes "post workerPublicKey reportData = Inl err"
    and "init_api ch = None"
    and "query_workers ch workerPublicKey = Inr (Some info)"
  shows "verifyAttestation post ch workerPublicKey reportData =
           OnChainResult workerPublicKey True (or_zero (info_confidenceLevel info))
             ''Attestation verified on-chain'' \<and>
         onChainVerified (verifyAttestation post ch workerPublicKey reportData)"
  using assms by (simp add: verifyAttestation_def on_chain_lookup_def)

theorem C7_fallback_found_witness:
  "unreachable_verifier ''0x01'' None = Inl (Error ''Network Error'') \<and>
   init_api (registry_with ''0x01'' example_info) = None \<and>
   query_workers (registry_with ''0x01'' example_info) ''0x01'' = Inr (Some example_info) \<and>
   verifyAttestation unreachable_verifier (registry_with ''0x01'' example_info) ''0x01'' None =
     OnChainResult ''0x01'' True 3 ''Attestation verified on-chain''"
proof -
  have h1: "unreachable_verifier ''0x01'' None = Inl (Error ''Network Error'')"
    by (simp add: unreachable_verifier_def)
  have h2: "init_api (registry_with ''0x01'' example_info) = None"
    by (simp add: registry_with_def)
  have h3: "query_workers (registry_with ''0x01'' example_info) ''0x01'' = Inr (Some example_info)"
    by (simp add: registry_with_def)
  from C7_fallback_found[where post = unreachable_verifier and workerPublicKey = "''0x01''"
      and reportData = None, OF h1 h2 h3] h1 h2 h3
  show ?thesis by (simp add: or_zero_def example_info_def)
qed

text \<open>
  C8. When the request to the primary verifier throws with an error \<open>err\<close> and the
  worker is absent from the registry, the fallback raises "Worker not found" internally,
  and the answer given to the caller is the error text carrying the message of \<open>err\<close>,
  the primary failure.
\<close>

theorem C8_absent_worker:
  assumes "post workerPublicKey reportData = Inl err"
    and "init_api ch = None"
    and "query_workers ch workerPublicKey = Inr None"
  shows "on_chain_lookup ch workerPublicKey = Inl (Error ''Worker not found'') \<and>
         verifyAttestation post ch workerPublicKey reportData =
           AttestationError (''Error verifying attestation: '' @ message err)"
  using assms by (simp add: verifyAttestation_def on_chain_lookup_def)

theorem C8_absent_worker_witness:
  "picky_verifier ''0x02'' None = Inl (Error ''Request failed with status code 400'') \<and>
   init_api (registry_with ''0x01'' example_info) = None \<and>
   query_workers (registry_with ''0x01'' example_info) ''0x02'' = Inr None \<and>
   verifyAttestation picky_verifier (registry_with ''0x01'' example_info) ''0x02'' None =
     AttestationError ''Error verifying attestation: Request failed with status code 400''"
proof -
  have h1: "picky_verifier ''0x02'' None = Inl (Error ''Request failed with status code 400'')"
    by (simp add: picky_verifier_def)
  have h2: "init_api (registry_with ''0x01'' example_info) = None"
    by (simp add: registry_with_def)
  have h3: "query_workers (registry_with ''0x01'' example_info) ''0x02'' = Inr None"
    by (simp add: registry_with_def)
  from C8_absent_worker[where post = picky_verifier and workerPublicKey = "''0x02''"
      and reportData = None, OF h1 h2 h3] h1 h2 h3
  show ?thesis by simp
qed

text \<open>
  The verifier is unreachable and the worker is not registered: the caller is told of
  the network error, not that the worker was not found.
\<close>

theorem C8_absent_worker_counterexample:
  "on_chain_lookup (registry_with ''0x01'' example_info) ''0x02'' =
     Inl (Error ''Worker not found'') \<and>
   verifyAttestation unreachable_verifier (registry_with ''0x01'' example_info) ''0x02''
       (Some ''0xff'') =
     AttestationError ''Error verifying attestation: Network Error'' \<and>
   verifyAttestation unreachable_verifier (registry_with ''0x01'' example_info) ''0x02''
       (Some ''0xff'') \<noteq>
     AttestationError ''Error verifying attestation: Worker not found''"
  by (simp add: verifyAttestation_def on_chain_lookup_def registry_with_def
      unreachable_verifier_def)

text \<open>
  C10. When the primary verifier fails for two values of the report data, the two
  answers for the same worker key and registry are identical provided the fallback
  lookup finds the worker, or the two primary failures carry the same message.
\<close>

theorem C10_report_data:
  assumes "post workerPublicKey reportDataA = Inl errA"
    and "post workerPublicKey reportDataB = Inl errB"
    and "(\<exists>info. on_chain_lookup ch workerPublicKey = Inr info) \<or> message errA = message errB"
  shows "verifyAttestation post ch workerPublicKey reportDataA =
         verifyAttestation post ch workerPublicKey reportDataB"
  using assms by (auto simp add: verifyAttestation_def split: sum.splits)

theorem C10_report_data_witness:
  "picky_verifier ''0x01'' None = Inl (Error ''Request failed with status code 400'') \<and>
   picky_verifier ''0x01'' (Some ''0xff'') = Inl (Error ''Request failed with status code 500'') \<and>
   on_chain_lookup (registry_with ''0x01'' example_info) ''0x01'' = Inr example_info \<and>
   verifyAttestation picky_verifier (registry_with ''0x01'' example_info) ''0x01'' None =
   verifyAttestation picky_verifier (registry_with ''0x01'' example_info) ''0x01'' (Some ''0xff'')"
proof -
  have h1: "picky_verifier ''0x01'' None = Inl (Error ''Request failed with status code 400'')"
    by (simp add: picky_verifier_def)
  have h2: "picky_verifier ''0x01'' (Some ''0xff'') =
      Inl (Error ''Request failed with status code 500'')"
    by (simp add: picky_verifier_def)
  have h3: "on_chain_lookup (registry_with ''0x01'' example_info) ''0x01'' = Inr example_info"
    by (simp add: on_chain_lookup_def registry_with_def)
  then have h3':
    "(\<exists>info. on_chain_lookup (registry_with ''0x01'' example_info) ''0x01'' = Inr info) \<or>
     message (Error ''Request failed with status code 400'') =
     message (Error ''Request failed with status code 500'')"
    by simp
  from C10_report_data[where post = picky_verifier and workerPublicKey = "''0x01''"
      and reportDataA = None and reportDataB = "Some ''0xff''", OF h1 h2 h3'] h1 h2 h3
  show ?thesis by simp
qed

text \<open>
  The primary verifier fails for both values, with different errors, and the worker is
  not registered: the two answers differ.
\<close>

theorem C10_report_data_counterexample:
  "picky_verifier ''0x02'' None = Inl (Error ''Request failed with status code 400'') \<and>
   picky_verifier ''0x02'' (Some ''0xff'') = Inl (Error ''Request failed with status code 500'') \<and>
   verifyAttestation picky_verifier (registry_with ''0x01'' example_info) ''0x02'' None \<noteq>
   verifyAttestation picky_verifier (registry_with ''0x01'' example_info) ''0x02'' (Some ''0xff'')"
  by (simp add: verifyAttestation_def on_chain_lookup_def registry_with_def picky_verifier_def)

end
